theory Spec2Isabelle
  imports Complex_Main "HOL-Library.AList"
begin

section \<open>Geometry: the haversine distance of models.py\<close>

text \<open>
  Python floats are modelled by the reals, so the results below are about the formulas
  the code evaluates, not about rounding. The functions of Python's \<open>math\<close> module are
  given their mathematical meaning: \<open>math.radians\<close>, \<open>math.atan2\<close> (by quadrant), and
  \<open>math.sqrt\<close>, which raises \<open>ValueError\<close> on a negative argument (\<open>None\<close> here).
\<close>

definition radians :: "real \<Rightarrow> real" where
  "radians d = d * pi / 180"

definition atan2 :: "real \<Rightarrow> real \<Rightarrow> real" where
  "atan2 y x =
     (if 0 < x then arctan (y / x)
      else if x < 0 then (if 0 \<le> y then arctan (y / x) + pi else arctan (y / x) - pi)
      else if 0 < y then pi / 2
      else if y < 0 then - (pi / 2)
      else 0)"

definition py_sqrt :: "real \<Rightarrow> real option" where
  "py_sqrt x = (if x < 0 then None else Some (sqrt x))"

text \<open>
  \<open>haversine_a\<close> is the local variable \<open>a\<close> of \<open>calculate_distance_between_points\<close>
  (and of \<open>is_location_within_room_boundary\<close>, which repeats the formula).
\<close>

definition haversine_a :: "real \<Rightarrow> real \<Rightarrow> real \<Rightarrow> real \<Rightarrow> real" where
  "haversine_a lat1 lng1 lat2 lng2 =
     (let dlat = radians (lat2 - lat1);
          dlng = radians (lng2 - lng1)
      in sin (dlat / 2) * sin (dlat / 2) +
         cos (radians lat1) * cos (radians lat2) * sin (dlng / 2) * sin (dlng / 2))"

text \<open>Kilometres; \<open>None\<close> when one of the two \<open>math.sqrt\<close> calls raises.\<close>

definition calculate_distance_between_points ::
  "real \<Rightarrow> real \<Rightarrow> real \<Rightarrow> real \<Rightarrow> real option" where
  "calculate_distance_between_points lat1 lng1 lat2 lng2 =
     (let a = haversine_a lat1 lng1 lat2 lng2 in
      case py_sqrt a of
        None \<Rightarrow> None
      | Some sa \<Rightarrow>
          (case py_sqrt (1 - a) of
             None \<Rightarrow> None
           | Some sb \<Rightarrow> Some (6371 * (2 * atan2 sa sb))))"

record Room =
  room_is_active :: bool
  max_users :: int
  room_latitude :: real
  room_longitude :: real
  boundary_radius :: real

text \<open>
  \<open>is_location_within_room_boundary lat lng room\<close>: the distance from the room's centre
  to the point, in kilometres, against \<open>boundary_radius / 1000\<close>.
\<close>

definition is_location_within_room_boundary :: "real \<Rightarrow> real \<Rightarrow> Room \<Rightarrow> bool option" where
  "is_location_within_room_boundary lat lng room =
     (let radius_km = boundary_radius room / 1000;
          a = haversine_a (room_latitude room) (room_longitude room) lat lng in
      case py_sqrt a of
        None \<Rightarrow> None
      | Some sa \<Rightarrow>
          (case py_sqrt (1 - a) of
             None \<Rightarrow> None
           | Some sb \<Rightarrow> Some (6371 * (2 * atan2 sa sb) \<le> radius_km)))"

section \<open>Movement classification of location_service.py\<close>

datatype MovementState = STATIONARY | WALKING | DRIVING | UNKNOWN

text \<open>Timestamps are seconds on the real line; optional fields are options.\<close>

record LocationPoint =
  latitude :: real
  longitude :: real
  accuracy :: real
  timestamp :: real
  altitude :: "real option"
  speed :: "real option"
  heading :: "real option"

text \<open>
  \<open>LocationService._calculate_distance\<close> calls geopy's \<open>geodesic\<close>, which is not part
  of the repository: it is a parameter, metres, \<open>None\<close> when it raises.
\<close>

type_synonym geodesic = "real \<Rightarrow> real \<Rightarrow> real \<Rightarrow> real \<Rightarrow> real option"

text \<open>
  The loop \<open>for i in range(1, len(recent_points))\<close>: it adds up the distance and the
  time difference of each pair of consecutive points; \<open>None\<close> when the distance raises.
\<close>

fun sum_legs :: "geodesic \<Rightarrow> LocationPoint list \<Rightarrow> real \<times> real \<Rightarrow> (real \<times> real) option" where
  "sum_legs g (p # q # rest) (total_distance, total_time) =
     (case g (latitude p) (longitude p) (latitude q) (longitude q) of
        None \<Rightarrow> None
      | Some distance \<Rightarrow>
          sum_legs g (q # rest)
            (total_distance + distance, total_time + (timestamp q - timestamp p)))"
| "sum_legs g [p] acc = Some acc"
| "sum_legs g [] acc = Some acc"

definition last5 :: "'a list \<Rightarrow> 'a list" where
  "last5 history = drop (length history - 5) history"

definition classify_speed :: "real \<Rightarrow> MovementState" where
  "classify_speed avg_speed_kmh =
     (if avg_speed_kmh < 1 then STATIONARY
      else if avg_speed_kmh < 8 then WALKING
      else DRIVING)"

text \<open>
  \<open>_detect_movement_state\<close>, on the history list of the user
  (\<open>self.user_movement_history.get(user_id, [])\<close>). An exception anywhere gives
  \<open>UNKNOWN\<close>, as the \<open>except\<close> clause does.
\<close>

definition detect_movement_state :: "geodesic \<Rightarrow> LocationPoint list \<Rightarrow> MovementState" where
  "detect_movement_state g history =
     (if length history < 2 then UNKNOWN
      else let recent_points = last5 history in
        if length recent_points < 2 then UNKNOWN
        else case sum_legs g recent_points (0, 0) of
          None \<Rightarrow> UNKNOWN
        | Some (total_distance, total_time) \<Rightarrow>
            if total_time \<le> 0 then STATIONARY
            else classify_speed (total_distance / total_time * 3.6))"

definition get_history :: "(int \<rightharpoonup> LocationPoint list) \<Rightarrow> int \<Rightarrow> LocationPoint list" where
  "get_history user_movement_history user_id =
     (case user_movement_history user_id of None \<Rightarrow> [] | Some h \<Rightarrow> h)"

text \<open>
  The spec's words for the same two totals: the distance of each pair of consecutive
  samples, and the time from the first sample to the last.
\<close>

definition legs :: "geodesic \<Rightarrow> LocationPoint list \<Rightarrow> real option list" where
  "legs g ps =
     map (\<lambda>(p, q). g (latitude p) (longitude p) (latitude q) (longitude q)) (zip ps (tl ps))"

definition elapsed :: "LocationPoint list \<Rightarrow> real" where
  "elapsed ps = (case ps of [] \<Rightarrow> 0 | p # _ \<Rightarrow> timestamp (last ps) - timestamp p)"

definition sample_at :: "real \<Rightarrow> LocationPoint" where
  "sample_at t = \<lparr>latitude = 1, longitude = 1, accuracy = 10, timestamp = t,
                  altitude = None, speed = None, heading = None\<rparr>"

section \<open>The persistence layer\<close>

text \<open>
  The tables the real-time code reads and writes through \<open>SessionLocal\<close>, with the
  columns it uses. Queries are total functions on the tables: a failing database is
  outside the model, and so are wall-clock columns (\<open>last_seen\<close>, \<open>updated_at\<close>,
  \<open>left_at\<close>).
\<close>

record User =
  user_name :: string
  user_is_active :: bool
  location_sharing_enabled :: bool
  user_is_online :: bool

record RoomMembership =
  m_room_id :: int
  m_user_id :: int
  m_is_active :: bool

record Friend =
  f_user1_id :: int
  f_user2_id :: int
  f_is_active :: bool
  can_see_location :: bool

record LocationData =
  ld_user_id :: int
  ld_latitude :: real
  ld_longitude :: real
  ld_accuracy :: "real option"

record database =
  users :: "int \<rightharpoonup> User"
  rooms :: "int \<rightharpoonup> Room"
  memberships :: "RoomMembership list"
  friends :: "Friend list"
  locations :: "LocationData list"
  messages :: "(int \<times> int \<times> string) list"

text \<open>\<open>db.query(Room).filter(and_(Room.id == room_id, Room.is_active == True)).first()\<close>\<close>

definition active_room :: "database \<Rightarrow> int \<Rightarrow> Room option" where
  "active_room d room_id =
     (case rooms d room_id of
        None \<Rightarrow> None
      | Some room \<Rightarrow> if room_is_active room then Some room else None)"

text \<open>The \<open>count()\<close> of the active memberships of a room.\<close>

definition current_members :: "database \<Rightarrow> int \<Rightarrow> int" where
  "current_members d room_id =
     int (length (filter (\<lambda>m. m_room_id m = room_id \<and> m_is_active m) (memberships d)))"

definition existing_membership :: "database \<Rightarrow> int \<Rightarrow> int \<Rightarrow> RoomMembership option" where
  "existing_membership d room_id user_id =
     find (\<lambda>m. m_room_id m = room_id \<and> m_user_id m = user_id \<and> m_is_active m) (memberships d)"

definition add_membership :: "int \<Rightarrow> int \<Rightarrow> database \<Rightarrow> database" where
  "add_membership room_id user_id d =
     d\<lparr>memberships := memberships d @
          [\<lparr>m_room_id = room_id, m_user_id = user_id, m_is_active = True\<rparr>]\<rparr>"

text \<open>\<open>_leave_room\<close>: the first active membership of the user in the room is closed.\<close>

fun close_first :: "int \<Rightarrow> int \<Rightarrow> RoomMembership list \<Rightarrow> RoomMembership list" where
  "close_first room_id user_id [] = []"
| "close_first room_id user_id (m # ms) =
     (if m_room_id m = room_id \<and> m_user_id m = user_id \<and> m_is_active m
      then m\<lparr>m_is_active := False\<rparr> # ms
      else m # close_first room_id user_id ms)"

definition close_membership :: "int \<Rightarrow> int \<Rightarrow> database \<Rightarrow> database" where
  "close_membership room_id user_id d =
     d\<lparr>memberships := close_first room_id user_id (memberships d)\<rparr>"

definition set_online :: "int \<Rightarrow> bool \<Rightarrow> database \<Rightarrow> database" where
  "set_online user_id b d =
     (case users d user_id of
        None \<Rightarrow> d
      | Some u \<Rightarrow> d\<lparr>users := (users d)(user_id \<mapsto> u\<lparr>user_is_online := b\<rparr>)\<rparr>)"

fun upsert_location ::
  "int \<Rightarrow> real \<Rightarrow> real \<Rightarrow> real option \<Rightarrow> LocationData list \<Rightarrow> LocationData list" where
  "upsert_location user_id la lo acc [] =
     [\<lparr>ld_user_id = user_id, ld_latitude = la, ld_longitude = lo, ld_accuracy = acc\<rparr>]"
| "upsert_location user_id la lo acc (r # rs) =
     (if ld_user_id r = user_id
      then r\<lparr>ld_latitude := la, ld_longitude := lo, ld_accuracy := acc\<rparr> # rs
      else r # upsert_location user_id la lo acc rs)"

section \<open>WebSocketManager of websocket_handler.py\<close>

text \<open>
  A websocket is an opaque handle. Whether \<open>send_text\<close> on it succeeds is given by the
  transport (\<open>True\<close>: the frame is written; \<open>False\<close>: it raises). The frames written are
  logged in \<open>delivered\<close>, oldest first, and the calls of \<open>close()\<close> in \<open>closed\<close>. A frame
  is its type and the identifiers it carries; names, member lists and message histories
  of the payload are left out.

  \<open>active_connections\<close> and \<open>user_locations\<close> are maps. \<open>room_memberships\<close> is an
  association list in insertion order, as a Python dict iterates, and a set of user
  ids is a list without repetition in some order of iteration.
\<close>

type_synonym websocket = nat

type_synonym transport = "websocket \<Rightarrow> bool"

datatype outbound =
    ErrorMsg string
  | RoomJoined int
  | UserJoined int int
  | UserLeft int int
  | RoomUsersUpdate int
  | NewMessage int int string
  | Pong
  | FriendNearby int real

record location =
  lat :: real
  lng :: real
  loc_accuracy :: "real option"

datatype inbound =
    JoinRoom "int option" "location option"
  | LeaveRoom "int option"
  | SendMessage "int option" "string option"
  | LocationUpdate "location option"
  | Ping
  | Other string

record WebSocketManager =
  active_connections :: "int \<rightharpoonup> websocket"
  room_memberships :: "(int \<times> int list) list"
  user_locations :: "int \<rightharpoonup> location"
  db :: database
  delivered :: "(websocket \<times> outbound) list"
  closed :: "websocket list"

definition proximity_threshold_km :: real where
  "proximity_threshold_km = 0.1"

definition set_add :: "int \<Rightarrow> int list \<Rightarrow> int list" where
  "set_add x xs = (if x \<in> set xs then xs else xs @ [x])"

definition set_discard :: "int \<Rightarrow> int list \<Rightarrow> int list" where
  "set_discard x xs = removeAll x xs"

text \<open>\<open>self.room_memberships.get(room_id, set())\<close>, as \<open>get_room_users_count\<close> reads it.\<close>

definition room_members :: "WebSocketManager \<Rightarrow> int \<Rightarrow> int list" where
  "room_members w room_id =
     (case map_of (room_memberships w) room_id of None \<Rightarrow> [] | Some members \<Rightarrow> members)"

definition get_room_users_count :: "WebSocketManager \<Rightarrow> int \<Rightarrow> int" where
  "get_room_users_count w room_id = int (length (room_members w room_id))"

definition is_user_online :: "WebSocketManager \<Rightarrow> int \<Rightarrow> bool" where
  "is_user_online w user_id = (active_connections w user_id \<noteq> None)"

definition get_user_rooms :: "WebSocketManager \<Rightarrow> int \<Rightarrow> int list" where
  "get_user_rooms w user_id =
     map fst (filter (\<lambda>(room_id, members). user_id \<in> set members) (room_memberships w))"

text \<open>
  \<open>_send_to_user\<close>: nothing for a user without a connection; a failed write removes
  the connection.
\<close>

definition send_to_user :: "transport \<Rightarrow> int \<Rightarrow> outbound \<Rightarrow> WebSocketManager \<Rightarrow> WebSocketManager" where
  "send_to_user tr user_id message w =
     (case active_connections w user_id of
        None \<Rightarrow> w
      | Some websocket \<Rightarrow>
          if tr websocket
          then w\<lparr>delivered := delivered w @ [(websocket, message)]\<rparr>
          else w\<lparr>active_connections := (active_connections w)(user_id := None)\<rparr>)"

text \<open>
  \<open>_broadcast_to_room\<close>. \<open>recipients\<close> is the copy of the member set after
  \<open>if exclude_user: members.discard(exclude_user)\<close>; the test is false for \<open>None\<close> and
  for the id 0.
\<close>

definition recipients :: "int list \<Rightarrow> int option \<Rightarrow> int list" where
  "recipients ms exclude_user =
     (case exclude_user of
        None \<Rightarrow> ms
      | Some e \<Rightarrow> if e \<noteq> 0 then set_discard e ms else ms)"

definition broadcast_to_room ::
  "transport \<Rightarrow> int \<Rightarrow> outbound \<Rightarrow> int option \<Rightarrow> WebSocketManager \<Rightarrow> WebSocketManager" where
  "broadcast_to_room tr room_id message exclude_user w =
     (case map_of (room_memberships w) room_id of
        None \<Rightarrow> w
      | Some ms \<Rightarrow>
          fold (\<lambda>user_id. send_to_user tr user_id message) (recipients ms exclude_user) w)"

definition broadcast_room_users :: "transport \<Rightarrow> int \<Rightarrow> WebSocketManager \<Rightarrow> WebSocketManager" where
  "broadcast_room_users tr room_id w =
     broadcast_to_room tr room_id (RoomUsersUpdate room_id) None w"

text \<open>\<open>_join_room\<close>\<close>

definition join_room :: "transport \<Rightarrow> int \<Rightarrow> int \<Rightarrow> WebSocketManager \<Rightarrow> WebSocketManager" where
  "join_room tr user_id room_id w =
     (let w1 = w\<lparr>room_memberships :=
                  AList.update room_id (set_add user_id (room_members w room_id))
                    (room_memberships w)\<rparr>
      in case rooms (db w1) room_id of
           None \<Rightarrow> w1
         | Some room \<Rightarrow>
             broadcast_room_users tr room_id
               (broadcast_to_room tr room_id (UserJoined user_id room_id) (Some user_id)
                  (send_to_user tr user_id (RoomJoined room_id) w1)))"

text \<open>\<open>_leave_room\<close>\<close>

definition leave_room :: "transport \<Rightarrow> int \<Rightarrow> int \<Rightarrow> WebSocketManager \<Rightarrow> WebSocketManager" where
  "leave_room tr user_id room_id w =
     (let w1 = (case map_of (room_memberships w) room_id of
                  None \<Rightarrow> w
                | Some ms \<Rightarrow>
                    if set_discard user_id ms = []
                    then w\<lparr>room_memberships := AList.delete room_id (room_memberships w)\<rparr>
                    else w\<lparr>room_memberships :=
                            AList.update room_id (set_discard user_id ms) (room_memberships w)\<rparr>);
          w2 = w1\<lparr>db := close_membership room_id user_id (db w1)\<rparr>
      in broadcast_room_users tr room_id
           (broadcast_to_room tr room_id (UserLeft user_id room_id) (Some user_id) w2))"

text \<open>
  \<open>_handle_join_room\<close>. \<open>if not room_id\<close> holds for a missing id and for 0. \<open>admit\<close>
  is the condition \<open>location and not is_location_within_room_boundary(...)\<close>, negated;
  an exception in it is answered with "Failed to join room".
\<close>

definition admit :: "location option \<Rightarrow> Room \<Rightarrow> bool option" where
  "admit location_opt room =
     (case location_opt of
        None \<Rightarrow> Some True
      | Some l \<Rightarrow> is_location_within_room_boundary (lat l) (lng l) room)"

definition handle_join_room ::
  "transport \<Rightarrow> int \<Rightarrow> int option \<Rightarrow> location option \<Rightarrow> WebSocketManager \<Rightarrow> WebSocketManager" where
  "handle_join_room tr user_id room_id_opt location_opt w =
     (case room_id_opt of
        None \<Rightarrow> send_to_user tr user_id (ErrorMsg ''Room ID required'') w
      | Some room_id \<Rightarrow>
         (if room_id = 0 then send_to_user tr user_id (ErrorMsg ''Room ID required'') w
          else (case active_room (db w) room_id of
            None \<Rightarrow> send_to_user tr user_id (ErrorMsg ''Room not found'') w
          | Some room \<Rightarrow>
             (if current_members (db w) room_id \<ge> max_users room
              then send_to_user tr user_id (ErrorMsg ''Room is at maximum capacity'') w
              else (case admit location_opt room of
                None \<Rightarrow> send_to_user tr user_id (ErrorMsg ''Failed to join room'') w
              | Some inside \<Rightarrow>
                 (if \<not> inside
                  then send_to_user tr user_id (ErrorMsg ''Outside room boundaries'') w
                  else join_room tr user_id room_id
                         (case existing_membership (db w) room_id user_id of
                            None \<Rightarrow> w\<lparr>db := add_membership room_id user_id (db w)\<rparr>
                          | Some m \<Rightarrow> w)))))))"

definition handle_leave_room ::
  "transport \<Rightarrow> int \<Rightarrow> int option \<Rightarrow> WebSocketManager \<Rightarrow> WebSocketManager" where
  "handle_leave_room tr user_id room_id_opt w =
     (case room_id_opt of
        None \<Rightarrow> send_to_user tr user_id (ErrorMsg ''Room ID required'') w
      | Some room_id \<Rightarrow>
         (if room_id = 0 then send_to_user tr user_id (ErrorMsg ''Room ID required'') w
          else leave_room tr user_id room_id w))"

definition handle_send_message ::
  "transport \<Rightarrow> int \<Rightarrow> int option \<Rightarrow> string option \<Rightarrow> WebSocketManager \<Rightarrow> WebSocketManager" where
  "handle_send_message tr user_id room_id_opt content_opt w =
     (case (room_id_opt, content_opt) of
        (Some room_id, Some content) \<Rightarrow>
          if room_id = 0 \<or> content = []
          then send_to_user tr user_id (ErrorMsg ''Room ID and message content required'') w
          else if user_id \<notin> set (room_members w room_id)
          then send_to_user tr user_id (ErrorMsg ''Not a member of this room'') w
          else broadcast_to_room tr room_id (NewMessage room_id user_id content) None
                 (w\<lparr>db := (db w)\<lparr>messages := messages (db w) @ [(room_id, user_id, content)]\<rparr>\<rparr>)
      | _ \<Rightarrow> send_to_user tr user_id (ErrorMsg ''Room ID and message content required'') w)"

text \<open>\<open>_send_proximity_notification\<close>: nothing when the friend's user row is missing.\<close>

definition send_proximity_notification ::
  "transport \<Rightarrow> int \<Rightarrow> int \<Rightarrow> real \<Rightarrow> WebSocketManager \<Rightarrow> WebSocketManager" where
  "send_proximity_notification tr user_id friend_id distance w =
     (case users (db w) friend_id of
        None \<Rightarrow> w
      | Some friend \<Rightarrow> send_to_user tr user_id (FriendNearby friend_id distance) w)"

text \<open>
  The loop of \<open>_check_proximity\<close> over the friendships of the user. An exception in the
  distance is logged by the \<open>except\<close> clause around the loop, which ends it.
\<close>

fun check_friends ::
  "transport \<Rightarrow> int \<Rightarrow> real \<Rightarrow> real \<Rightarrow> Friend list \<Rightarrow> WebSocketManager \<Rightarrow> WebSocketManager" where
  "check_friends tr user_id user_lat user_lng [] w = w"
| "check_friends tr user_id user_lat user_lng (friendship # rest) w =
     (let friend_id = (if f_user1_id friendship = user_id
                       then f_user2_id friendship else f_user1_id friendship)
      in case find (\<lambda>r. ld_user_id r = friend_id) (locations (db w)) of
           None \<Rightarrow> check_friends tr user_id user_lat user_lng rest w
         | Some friend_location \<Rightarrow>
             (case calculate_distance_between_points user_lat user_lng
                     (ld_latitude friend_location) (ld_longitude friend_location) of
                None \<Rightarrow> w
              | Some distance \<Rightarrow>
                  check_friends tr user_id user_lat user_lng rest
                    (if distance \<le> proximity_threshold_km
                     then send_proximity_notification tr user_id friend_id distance w
                     else w)))"

definition visible_friendships :: "database \<Rightarrow> int \<Rightarrow> Friend list" where
  "visible_friendships d user_id =
     filter (\<lambda>f. (f_user1_id f = user_id \<or> f_user2_id f = user_id) \<and>
                 f_is_active f \<and> can_see_location f) (friends d)"

text \<open>\<open>_check_proximity\<close>. \<open>if not user_lat or not user_lng\<close> holds for a coordinate 0.\<close>

definition check_proximity :: "transport \<Rightarrow> int \<Rightarrow> location \<Rightarrow> WebSocketManager \<Rightarrow> WebSocketManager" where
  "check_proximity tr user_id l w =
     (if lat l = 0 \<or> lng l = 0 then w
      else check_friends tr user_id (lat l) (lng l) (visible_friendships (db w) user_id) w)"

definition handle_location_update ::
  "transport \<Rightarrow> int \<Rightarrow> location option \<Rightarrow> WebSocketManager \<Rightarrow> WebSocketManager" where
  "handle_location_update tr user_id location_opt w =
     (case location_opt of
        None \<Rightarrow> w
      | Some l \<Rightarrow>
          let w1 = w\<lparr>user_locations := (user_locations w)(user_id \<mapsto> l)\<rparr>;
              w2 = w1\<lparr>db := (db w1)\<lparr>locations :=
                     upsert_location user_id (lat l) (lng l) (loc_accuracy l)
                       (locations (db w1))\<rparr>\<rparr>
          in check_proximity tr user_id l w2)"

definition handle_message :: "transport \<Rightarrow> int \<Rightarrow> inbound \<Rightarrow> WebSocketManager \<Rightarrow> WebSocketManager" where
  "handle_message tr user_id message w =
     (case message of
        JoinRoom room_id l \<Rightarrow> handle_join_room tr user_id room_id l w
      | LeaveRoom room_id \<Rightarrow> handle_leave_room tr user_id room_id w
      | SendMessage room_id content \<Rightarrow> handle_send_message tr user_id room_id content w
      | LocationUpdate l \<Rightarrow> handle_location_update tr user_id l w
      | Ping \<Rightarrow> send_to_user tr user_id Pong w
      | Other t \<Rightarrow> send_to_user tr user_id (ErrorMsg (''Unknown message type: '' @ t)) w)"

text \<open>
  \<open>_send_initial_data\<close>: the active memberships of the user are read once, then each
  room is rejoined.
\<close>

definition send_initial_data :: "transport \<Rightarrow> int \<Rightarrow> WebSocketManager \<Rightarrow> WebSocketManager" where
  "send_initial_data tr user_id w =
     fold (\<lambda>m. join_room tr user_id (m_room_id m))
       (filter (\<lambda>m. m_user_id m = user_id \<and> m_is_active m) (memberships (db w))) w"

text \<open>\<open>connect\<close>: the entry of the user is overwritten; no websocket is closed.\<close>

definition connect :: "transport \<Rightarrow> int \<Rightarrow> websocket \<Rightarrow> WebSocketManager \<Rightarrow> WebSocketManager" where
  "connect tr user_id websocket w =
     (let w1 = w\<lparr>active_connections := (active_connections w)(user_id \<mapsto> websocket)\<rparr>;
          w2 = w1\<lparr>db := set_online user_id True (db w1)\<rparr>
      in send_initial_data tr user_id w2)"

text \<open>
  The loop of \<open>disconnect\<close> over \<open>list(self.room_memberships.keys())\<close>. Reading
  \<open>self.room_memberships[room_id]\<close> for a key that is gone raises \<open>KeyError\<close>: the
  result is \<open>Inl\<close> of the state reached, and \<open>disconnect\<close> skips what follows the loop.
\<close>

fun leave_rooms ::
  "transport \<Rightarrow> int \<Rightarrow> int list \<Rightarrow> WebSocketManager \<Rightarrow> WebSocketManager + WebSocketManager" where
  "leave_rooms tr user_id [] w = Inr w"
| "leave_rooms tr user_id (room_id # rest) w =
     (case map_of (room_memberships w) room_id of
        None \<Rightarrow> Inl w
      | Some ms \<Rightarrow>
          leave_rooms tr user_id rest
            (if user_id \<in> set ms then leave_room tr user_id room_id w else w))"

definition disconnect :: "transport \<Rightarrow> int \<Rightarrow> WebSocketManager \<Rightarrow> WebSocketManager" where
  "disconnect tr user_id w =
     (let w1 = w\<lparr>active_connections := (active_connections w)(user_id := None)\<rparr>
      in case leave_rooms tr user_id (map fst (room_memberships w1)) w1 of
           Inl w2 \<Rightarrow> w2
         | Inr w2 \<Rightarrow>
             (let w3 = w2\<lparr>user_locations := (user_locations w2)(user_id := None)\<rparr>
              in w3\<lparr>db := set_online user_id False (db w3)\<rparr>))"

text \<open>A run of the manager from its initial state, each step with its own transport.\<close>

datatype operation =
    Connect int websocket
  | Disconnect int
  | Handle int inbound

fun step :: "transport \<times> operation \<Rightarrow> WebSocketManager \<Rightarrow> WebSocketManager" where
  "step (tr, Connect user_id websocket) w = connect tr user_id websocket w"
| "step (tr, Disconnect user_id) w = disconnect tr user_id w"
| "step (tr, Handle user_id message) w = handle_message tr user_id message w"

definition init :: "database \<Rightarrow> WebSocketManager" where
  "init d = \<lparr>active_connections = Map.empty, room_memberships = [],
             user_locations = Map.empty, db = d, delivered = [], closed = []\<rparr>"

definition run :: "(transport \<times> operation) list \<Rightarrow> WebSocketManager \<Rightarrow> WebSocketManager" where
  "run ops w = fold step ops w"

section \<open>LocationService of location_service.py\<close>

text \<open>
  The caches of the service that the proximity check uses. An event keeps the two
  users, the distance and its type; its timestamp and the copies of the two locations
  are left out.
\<close>

record ProximityEvent =
  user1_id :: int
  user2_id :: int
  distance_meters :: real
  event_type :: string

record LocationService =
  proximity_cache :: "int \<times> int \<rightharpoonup> real"
  user_movement_history :: "int \<rightharpoonup> LocationPoint list"
  movement_states :: "int \<rightharpoonup> MovementState"
  user_geofence_status :: "int \<times> int \<rightharpoonup> bool"

definition proximity_threshold :: real where
  "proximity_threshold = 100"

text \<open>
  The query of \<open>_check_user_proximity\<close>: the location rows of the active users who
  share their location and have an active friendship with the user that allows
  seeing the location.
\<close>

definition friend_locations :: "database \<Rightarrow> int \<Rightarrow> LocationData list" where
  "friend_locations d user_id =
     filter (\<lambda>r.
        ld_user_id r \<noteq> user_id \<and>
        (case users d (ld_user_id r) of
           None \<Rightarrow> False
         | Some u \<Rightarrow> user_is_active u \<and> location_sharing_enabled u) \<and>
        list_ex (\<lambda>f. f_is_active f \<and> can_see_location f \<and>
                   ((f_user1_id f = user_id \<and> f_user2_id f = ld_user_id r) \<or>
                    (f_user2_id f = user_id \<and> f_user1_id f = ld_user_id r)))
          (friends d))
       (locations d)"

definition cache_key :: "int \<Rightarrow> int \<Rightarrow> int \<times> int" where
  "cache_key user_id friend_id = (min user_id friend_id, max user_id friend_id)"

definition was_nearby :: "LocationService \<Rightarrow> int \<times> int \<Rightarrow> bool" where
  "was_nearby ls k =
     (case proximity_cache ls k of
        None \<Rightarrow> False
      | Some previous_distance \<Rightarrow> previous_distance \<le> proximity_threshold)"

text \<open>
  The loop of \<open>_check_user_proximity\<close> over the friends' locations. When the distance
  raises, the \<open>except\<close> clause returns no event; the cache keeps what the loop wrote.
\<close>

fun proximity_loop ::
  "geodesic \<Rightarrow> int \<Rightarrow> LocationPoint \<Rightarrow> LocationData list \<Rightarrow> ProximityEvent list \<Rightarrow>
   LocationService \<Rightarrow> ProximityEvent list \<times> LocationService" where
  "proximity_loop g user_id l [] proximity_events ls = (proximity_events, ls)"
| "proximity_loop g user_id l (friend_location # rest) proximity_events ls =
     (let friend_id = ld_user_id friend_location in
      case g (latitude l) (longitude l)
             (ld_latitude friend_location) (ld_longitude friend_location) of
        None \<Rightarrow> ([], ls)
      | Some distance \<Rightarrow>
          (let k = cache_key user_id friend_id;
               is_nearby = (distance \<le> proximity_threshold);
               evs = (if was_nearby ls k \<noteq> is_nearby
                      then proximity_events @
                           [\<lparr>user1_id = user_id, user2_id = friend_id,
                             distance_meters = distance,
                             event_type = (if is_nearby then ''entered'' else ''exited'')\<rparr>]
                      else proximity_events)
           in proximity_loop g user_id l rest evs
                (ls\<lparr>proximity_cache := (proximity_cache ls)(k \<mapsto> distance)\<rparr>)))"

definition check_user_proximity ::
  "geodesic \<Rightarrow> database \<Rightarrow> int \<Rightarrow> LocationPoint \<Rightarrow> LocationService \<Rightarrow>
   ProximityEvent list \<times> LocationService" where
  "check_user_proximity g d user_id l ls =
     proximity_loop g user_id l (friend_locations d user_id) [] ls"

section \<open>The application of main.py\<close>



section \<open>Well-formed indexes and sample data\<close>

text \<open>
  What a Python dict of non-empty sets satisfies by construction and the association
  list must be told: the keys are distinct, and each occupant list is non-empty and
  without repetition.
\<close>

definition index_ok :: "(int \<times> int list) list \<Rightarrow> bool" where
  "index_ok al =
     (distinct (map fst al) \<and>
      list_all (\<lambda>(room_id, members). members \<noteq> [] \<and> distinct members) al)"

text \<open>
  A small database used to run the code on concrete inputs: three users, room 7 with
  capacity 2, users 1 and 2 friends who see each other's location, user 2 located at
  (1, 1). \<open>all_up\<close> is a transport on which every write succeeds.
\<close>

definition room7 :: Room where
  "room7 = \<lparr>room_is_active = True, max_users = 2, room_latitude = 1,
             room_longitude = 1, boundary_radius = 50\<rparr>"

definition db0 :: database where
  "db0 = \<lparr>users = [1 \<mapsto> \<lparr>user_name = ''ann'', user_is_active = True,
                              location_sharing_enabled = True, user_is_online = False\<rparr>,
                      2 \<mapsto> \<lparr>user_name = ''bob'', user_is_active = True,
                              location_sharing_enabled = True, user_is_online = False\<rparr>,
                      3 \<mapsto> \<lparr>user_name = ''cy'', user_is_active = True,
                              location_sharing_enabled = True, user_is_online = False\<rparr>],
           rooms = [7 \<mapsto> room7],
           memberships = [],
           friends = [\<lparr>f_user1_id = 1, f_user2_id = 2, f_is_active = True,
                       can_see_location = True\<rparr>],
           locations = [\<lparr>ld_user_id = 2, ld_latitude = 1, ld_longitude = 1,
                         ld_accuracy = None\<rparr>],
           messages = []\<rparr>"

text \<open>The frame that a send of \<open>message\<close> to \<open>user_id\<close> writes in state \<open>w\<close>, if any.\<close>

definition frame_to ::
  "transport \<Rightarrow> outbound \<Rightarrow> WebSocketManager \<Rightarrow> int \<Rightarrow> (websocket \<times> outbound) list" where
  "frame_to tr message w user_id =
     (case active_connections w user_id of
        None \<Rightarrow> []
      | Some websocket \<Rightarrow> if tr websocket then [(websocket, message)] else [])"

definition all_up :: transport where
  "all_up = (\<lambda>websocket. True)"

text \<open>Users 1 and 2 connect (websockets 10 and 20) and join room 7.\<close>

definition joined_ops :: "(transport \<times> operation) list" where
  "joined_ops =
     [(all_up, Connect 1 10), (all_up, Connect 2 20),
      (all_up, Handle 1 (JoinRoom (Some 7) None)),
      (all_up, Handle 2 (JoinRoom (Some 7) None))]"

definition two_joined :: WebSocketManager where
  "two_joined = run joined_ops (init db0)"

text \<open>User 3 connects too (websocket 30), while room 7 is full.\<close>

definition three_connected :: WebSocketManager where
  "three_connected = run (joined_ops @ [(all_up, Connect 3 30)]) (init db0)"

text \<open>
  Three users in room 7, and a transport on which the writes to websocket 20 fail.
\<close>

definition one_down :: transport where
  "one_down = (\<lambda>websocket. websocket \<noteq> 20)"

definition three_in_room :: WebSocketManager where
  "three_in_room =
     \<lparr>active_connections = [1 \<mapsto> 10, 2 \<mapsto> 20, 3 \<mapsto> 30], room_memberships = [(7, [1, 2, 3])],
      user_locations = Map.empty, db = db0, delivered = [], closed = []\<rparr>"

text \<open>User 1 alone in room 7.\<close>

definition one_joined :: WebSocketManager where
  "one_joined =
     run [(all_up, Connect 1 10), (all_up, Handle 1 (JoinRoom (Some 7) None))] (init db0)"

text \<open>
  A location service with empty caches, sample points on the parallel of latitude 1,
  and a stand-in for geopy's distance that returns the longitude of the first point as
  the distance in metres.
\<close>

definition empty_service :: LocationService where
  "empty_service = \<lparr>proximity_cache = Map.empty, user_movement_history = Map.empty,
                     movement_states = Map.empty, user_geofence_status = Map.empty\<rparr>"

definition by_longitude :: geodesic where
  "by_longitude = (\<lambda>lat1 lng1 lat2 lng2. Some lng1)"

definition point_at :: "real \<Rightarrow> LocationPoint" where
  "point_at x = \<lparr>latitude = 1, longitude = x, accuracy = 10, timestamp = 0,
                 altitude = None, speed = None, heading = None\<rparr>"

text \<open>
  For stating the proximity results: the events of a check that concern one friend,
  and the event that the threshold rule calls for when the distance to the friend is
  \<open>distance\<close> and the cache is that of \<open>ls\<close> (none when the flag does not change).
\<close>

definition events_for :: "int \<Rightarrow> ProximityEvent list \<Rightarrow> ProximityEvent list" where
  "events_for friend_id evs = filter (\<lambda>e. user2_id e = friend_id) evs"

definition transition :: "LocationService \<Rightarrow> int \<Rightarrow> int \<Rightarrow> real \<Rightarrow> ProximityEvent list" where
  "transition ls user_id friend_id distance =
     (if was_nearby ls (cache_key user_id friend_id) \<noteq> (distance \<le> proximity_threshold)
      then [\<lparr>user1_id = user_id, user2_id = friend_id, distance_meters = distance,
             event_type = (if distance \<le> proximity_threshold then ''entered'' else ''exited'')\<rparr>]
      else [])"

text \<open>
  The cache of two users last seen 150 m apart, and a websocket location at (1, 1),
  where user 2 of the sample database is.
\<close>

definition apart_150 :: LocationService where
  "apart_150 = empty_service\<lparr>proximity_cache := [cache_key 1 2 \<mapsto> 150]\<rparr>"

definition here :: location where
  "here = \<lparr>lat = 1, lng = 1, loc_accuracy = None\<rparr>"

text \<open>
  What a rejected request amounts to: the handler's result is the state after sending
  the error to the requester, so the in-memory memberships, the database and the stored
  locations are as before, the only frame written is the error, and the registry is
  as before unless that frame could not be written.
\<close>

definition rejected_with ::
  "transport \<Rightarrow> int \<Rightarrow> string \<Rightarrow> WebSocketManager \<Rightarrow> WebSocketManager \<Rightarrow> bool" where
  "rejected_with tr user_id msg w w' =
     (w' = send_to_user tr user_id (ErrorMsg msg) w \<and>
      room_memberships w' = room_memberships w \<and>
      db w' = db w \<and>
      user_locations w' = user_locations w \<and>
      delivered w' = delivered w @ frame_to tr (ErrorMsg msg) w user_id \<and>
      (active_connections w' = active_connections w \<or> frame_to tr (ErrorMsg msg) w user_id = []))"

text \<open>The point opposite the centre of room 7, some 20000 km from it.\<close>

definition antipode :: location where
  "antipode = \<lparr>lat = - 1, lng = - 179, loc_accuracy = None\<rparr>"

section \<open>Results on the geometry\<close>

lemma haversine_a_same: "haversine_a la lo la lo = 0"
  by (simp add: haversine_a_def radians_def)

lemma haversine_a_sym: "haversine_a lat1 lng1 lat2 lng2 = haversine_a lat2 lng2 lat1 lng1"
proof -
  have s: "sin (radians (x - y) / 2) * sin (radians (x - y) / 2) =
           sin (radians (y - x) / 2) * sin (radians (y - x) / 2)" for x y :: real
  proof -
    have "radians (x - y) / 2 = - (radians (y - x) / 2)"
      by (simp add: radians_def field_simps)
    then show ?thesis by (simp only: sin_minus minus_mult_minus)
  qed
  show ?thesis
    unfolding haversine_a_def Let_def
    using s [of lat2 lat1] s [of lng2 lng1]
    by (simp add: mult.assoc mult.left_commute)
qed

lemma distance_same: "calculate_distance_between_points la lo la lo = Some 0"
  by (simp add: calculate_distance_between_points_def haversine_a_same py_sqrt_def atan2_def)

text \<open>
  C10. The haversine distance of \<open>calculate_distance_between_points\<close> (Earth radius
  6371 km) from a coordinate to itself is 0, without an exception, and the distance from
  a to b is the distance from b to a.
\<close>

theorem distance_round_trip:
  "calculate_distance_between_points la lo la lo = Some 0 \<and>
   calculate_distance_between_points lat1 lng1 lat2 lng2 =
     calculate_distance_between_points lat2 lng2 lat1 lng1"
proof
  show "calculate_distance_between_points la lo la lo = Some 0"
    by (rule distance_same)
next
  have "haversine_a lat1 lng1 lat2 lng2 = haversine_a lat2 lng2 lat1 lng1"
    by (rule haversine_a_sym)
  then show "calculate_distance_between_points lat1 lng1 lat2 lng2 =
     calculate_distance_between_points lat2 lng2 lat1 lng1"
    by (simp add: calculate_distance_between_points_def)
qed

section \<open>Results on the movement classification\<close>

lemma sum_legs_totals:
  "legs g ps = map Some ds \<Longrightarrow>
   sum_legs g ps (d0, t0) = Some (d0 + sum_list ds, t0 + elapsed ps)"
proof (induction g ps "(d0, t0)" arbitrary: d0 t0 ds rule: sum_legs.induct)
  case (1 g p q rest total_distance total_time)
  from "1.prems" obtain d ds' where ds: "ds = d # ds'"
    and d: "g (latitude p) (longitude p) (latitude q) (longitude q) = Some d"
    and rest: "legs g (q # rest) = map Some ds'"
    by (cases ds) (auto simp: legs_def)
  have "sum_legs g (q # rest) (total_distance + d, total_time + (timestamp q - timestamp p)) =
        Some (total_distance + d + sum_list ds',
              total_time + (timestamp q - timestamp p) + elapsed (q # rest))"
    using "1.hyps" [OF d rest] .
  then show ?case using d ds by (simp add: elapsed_def)
next
  case (2 g p)
  then show ?case by (simp add: legs_def elapsed_def)
next
  case (3 g)
  then show ?case by (simp add: legs_def elapsed_def)
qed

text \<open>
  C7, as the code has it. The state is computed from the last up to 5 samples. With
  fewer than 2 samples it is Unknown. Otherwise, when every distance between
  consecutive samples is computed (distances \<open>ds\<close>), it is Stationary when the time
  from the first to the last of these samples is zero or negative, and else classified
  by the average speed (total distance over that time, times 3.6): Stationary below 1
  km/h, Walking below 8 km/h, Driving from 8 km/h.
\<close>

theorem movement_classification:
  assumes "legs g (last5 history) = map Some ds"
  shows "detect_movement_state g history =
     (if length history < 2 then UNKNOWN
      else if elapsed (last5 history) \<le> 0 then STATIONARY
      else if sum_list ds / elapsed (last5 history) * 3.6 < 1 then STATIONARY
      else if sum_list ds / elapsed (last5 history) * 3.6 < 8 then WALKING
      else DRIVING)"
proof -
  have l: "length history < 2 \<longleftrightarrow> length (last5 history) < 2"
    by (auto simp: last5_def)
  show ?thesis
    using sum_legs_totals [OF assms, of 0 0] l
    by (simp add: detect_movement_state_def classify_speed_def Let_def)
qed

theorem movement_classification_witness:
  "legs (\<lambda>_ _ _ _. Some 10) (last5 [sample_at 0, sample_at 30, sample_at 60]) =
     map Some [10, 10] \<and>
   detect_movement_state (\<lambda>_ _ _ _. Some 10) [sample_at 0, sample_at 30, sample_at 60] =
     WALKING"
proof -
  have h: "legs (\<lambda>_ _ _ _. Some 10) (last5 [sample_at 0, sample_at 30, sample_at 60]) =
     map Some [10, 10]"
    by (simp add: legs_def last5_def)
  show ?thesis
    using h movement_classification [OF h]
    by (simp add: elapsed_def last5_def sample_at_def)
qed

text \<open>
  Two samples with the same timestamp: the elapsed time is zero and the state is
  Stationary, not Unknown.
\<close>

theorem movement_zero_elapsed_counterexample:
  "elapsed (last5 [sample_at 5, sample_at 5]) = 0 \<and>
   detect_movement_state (\<lambda>_ _ _ _. Some 10) [sample_at 5, sample_at 5] \<noteq> UNKNOWN"
  by (simp add: detect_movement_state_def last5_def sample_at_def elapsed_def)

section \<open>What the sends leave untouched\<close>

lemma send_to_user_frame [simp]:
  "room_memberships (send_to_user tr u m w) = room_memberships w"
  "db (send_to_user tr u m w) = db w"
  "user_locations (send_to_user tr u m w) = user_locations w"
  "closed (send_to_user tr u m w) = closed w"
  by (simp_all add: send_to_user_def split: option.splits)

lemma fold_send_frame [simp]:
  "room_memberships (fold (\<lambda>u. send_to_user tr u m) us w) = room_memberships w"
  "db (fold (\<lambda>u. send_to_user tr u m) us w) = db w"
  "user_locations (fold (\<lambda>u. send_to_user tr u m) us w) = user_locations w"
  "closed (fold (\<lambda>u. send_to_user tr u m) us w) = closed w"
  by (induction us arbitrary: w; simp)+

lemma broadcast_frame [simp]:
  "room_memberships (broadcast_to_room tr r m e w) = room_memberships w"
  "db (broadcast_to_room tr r m e w) = db w"
  "user_locations (broadcast_to_room tr r m e w) = user_locations w"
  "closed (broadcast_to_room tr r m e w) = closed w"
  by (simp_all add: broadcast_to_room_def split: option.splits)

lemma broadcast_room_users_frame [simp]:
  "room_memberships (broadcast_room_users tr r w) = room_memberships w"
  "db (broadcast_room_users tr r w) = db w"
  "user_locations (broadcast_room_users tr r w) = user_locations w"
  "closed (broadcast_room_users tr r w) = closed w"
  by (simp_all add: broadcast_room_users_def)

lemma join_room_index:
  "room_memberships (join_room tr u r w) =
     AList.update r (set_add u (room_members w r)) (room_memberships w)"
  by (simp add: join_room_def Let_def split: option.splits)

lemma join_room_frame [simp]:
  "db (join_room tr u r w) = db w"
  "user_locations (join_room tr u r w) = user_locations w"
  "closed (join_room tr u r w) = closed w"
  by (simp_all add: join_room_def Let_def split: option.splits)

lemma leave_room_index:
  "room_memberships (leave_room tr u r w) =
     (case map_of (room_memberships w) r of
        None \<Rightarrow> room_memberships w
      | Some ms \<Rightarrow>
          if set_discard u ms = [] then AList.delete r (room_memberships w)
          else AList.update r (set_discard u ms) (room_memberships w))"
  by (simp add: leave_room_def Let_def split: option.splits)

lemma leave_room_frame [simp]:
  "user_locations (leave_room tr u r w) = user_locations w"
  "closed (leave_room tr u r w) = closed w"
  by (simp_all add: leave_room_def Let_def split: option.splits)

lemma send_proximity_notification_frame [simp]:
  "room_memberships (send_proximity_notification tr u f x w) = room_memberships w"
  "db (send_proximity_notification tr u f x w) = db w"
  "user_locations (send_proximity_notification tr u f x w) = user_locations w"
  "closed (send_proximity_notification tr u f x w) = closed w"
  by (simp_all add: send_proximity_notification_def split: option.splits)

lemma check_friends_frame [simp]:
  "room_memberships (check_friends tr u la lo fs w) = room_memberships w"
  "db (check_friends tr u la lo fs w) = db w"
  "user_locations (check_friends tr u la lo fs w) = user_locations w"
  "closed (check_friends tr u la lo fs w) = closed w"
  by (induction tr u la lo fs w rule: check_friends.induct;
      simp add: Let_def split: option.splits)+

section \<open>The index stays well-formed\<close>

lemma list_all_update:
  "list_all P al \<Longrightarrow> P (k, v) \<Longrightarrow> list_all P (AList.update k v al)"
  by (induction al) auto

lemma list_all_delete:
  "list_all P al \<Longrightarrow> list_all P (AList.delete k al)"
  by (induction al) auto

lemma index_ok_update:
  "index_ok al \<Longrightarrow> ms \<noteq> [] \<Longrightarrow> distinct ms \<Longrightarrow> index_ok (AList.update r ms al)"
  by (simp add: index_ok_def distinct_update list_all_update)

lemma index_ok_delete: "index_ok al \<Longrightarrow> index_ok (AList.delete r al)"
  by (simp add: index_ok_def distinct_delete list_all_delete)

lemma index_ok_lookup:
  "index_ok al \<Longrightarrow> map_of al r = Some ms \<Longrightarrow> ms \<noteq> [] \<and> distinct ms"
  by (auto simp: index_ok_def list_all_iff dest!: map_of_SomeD)

lemma set_add_ok: "distinct ms \<Longrightarrow> set_add u ms \<noteq> [] \<and> distinct (set_add u ms)"
  by (auto simp: set_add_def)

lemma index_ok_join:
  assumes "index_ok (room_memberships w)"
  shows "index_ok (room_memberships (join_room tr u r w))"
proof -
  have "distinct (room_members w r)"
  proof (cases "map_of (room_memberships w) r")
    case None
    then show ?thesis by (simp add: room_members_def)
  next
    case (Some ms)
    then show ?thesis
      using index_ok_lookup [OF assms Some] by (simp add: room_members_def)
  qed
  then have "set_add u (room_members w r) \<noteq> [] \<and> distinct (set_add u (room_members w r))"
    by (rule set_add_ok)
  then show ?thesis
    using assms by (simp add: join_room_index index_ok_update)
qed

lemma index_ok_leave:
  assumes "index_ok (room_memberships w)"
  shows "index_ok (room_memberships (leave_room tr u r w))"
proof (cases "map_of (room_memberships w) r")
  case None
  then show ?thesis using assms by (simp add: leave_room_index)
next
  case (Some ms)
  have d: "distinct (set_discard u ms)"
    using index_ok_lookup [OF assms Some] by (simp add: set_discard_def distinct_removeAll)
  show ?thesis
  proof (cases "set_discard u ms = []")
    case True
    then show ?thesis using assms Some by (simp add: leave_room_index index_ok_delete)
  next
    case False
    then show ?thesis
      using assms Some d by (simp add: leave_room_index index_ok_update)
  qed
qed

lemma index_ok_leave_rooms:
  "index_ok (room_memberships w) \<Longrightarrow> leave_rooms tr u rs w = Inr w' \<or> leave_rooms tr u rs w = Inl w' \<Longrightarrow>
   index_ok (room_memberships w')"
proof (induction rs arbitrary: w)
  case Nil
  then show ?case by auto
next
  case (Cons r rs)
  show ?case
  proof (cases "map_of (room_memberships w) r")
    case None
    then show ?thesis using Cons.prems by auto
  next
    case (Some ms)
    let ?w1 = "if u \<in> set ms then leave_room tr u r w else w"
    have ok: "index_ok (room_memberships ?w1)"
      using Cons.prems(1) by (simp add: index_ok_leave)
    have "leave_rooms tr u (r # rs) w = leave_rooms tr u rs ?w1"
      using Some by simp
    then have "leave_rooms tr u rs ?w1 = Inr w' \<or> leave_rooms tr u rs ?w1 = Inl w'"
      using Cons.prems(2) by simp
    then show ?thesis using Cons.IH [OF ok] by blast
  qed
qed

lemma index_ok_disconnect:
  assumes "index_ok (room_memberships w)"
  shows "index_ok (room_memberships (disconnect tr u w))"
proof -
  define w1 where "w1 = w\<lparr>active_connections := (active_connections w)(u := None)\<rparr>"
  have ok: "index_ok (room_memberships w1)" using assms by (simp add: w1_def)
  show ?thesis
  proof (cases "leave_rooms tr u (map fst (room_memberships w1)) w1")
    case (Inl w2)
    then have "disconnect tr u w = w2"
      by (simp add: disconnect_def Let_def w1_def)
    then show ?thesis using index_ok_leave_rooms [OF ok] Inl by blast
  next
    case (Inr w2)
    have "index_ok (room_memberships w2)"
      using index_ok_leave_rooms [OF ok] Inr by blast
    moreover have "room_memberships (disconnect tr u w) = room_memberships w2"
      using Inr by (simp add: disconnect_def Let_def w1_def)
    ultimately show ?thesis by simp
  qed
qed

lemma index_ok_send_initial_data:
  "index_ok (room_memberships w) \<Longrightarrow>
   index_ok (room_memberships (fold (\<lambda>m. join_room tr u (m_room_id m)) ms w))"
  by (induction ms arbitrary: w) (simp_all add: index_ok_join)

lemma index_ok_connect:
  "index_ok (room_memberships w) \<Longrightarrow> index_ok (room_memberships (connect tr u s w))"
  by (simp add: connect_def Let_def send_initial_data_def index_ok_send_initial_data)

lemma index_ok_handle_join_room:
  assumes "index_ok (room_memberships w)"
  shows "index_ok (room_memberships (handle_join_room tr u r l w))"
proof -
  have j: "index_ok (room_memberships (join_room tr u k w1))"
    if "room_memberships w1 = room_memberships w" for k w1
    using index_ok_join [of w1 tr u k] assms that by simp
  show ?thesis
    unfolding handle_join_room_def
    by (simp add: assms j split: option.split)
qed

lemma index_ok_handle_leave_room:
  "index_ok (room_memberships w) \<Longrightarrow>
   index_ok (room_memberships (handle_leave_room tr u r w))"
  by (simp add: handle_leave_room_def index_ok_leave split: option.split)

lemma handle_send_message_frame [simp]:
  "room_memberships (handle_send_message tr u r c w) = room_memberships w"
  by (simp add: handle_send_message_def split: option.split)

lemma handle_location_update_frame [simp]:
  "room_memberships (handle_location_update tr u l w) = room_memberships w"
  by (simp add: handle_location_update_def check_proximity_def Let_def split: option.split)

lemma index_ok_handle_message:
  "index_ok (room_memberships w) \<Longrightarrow> index_ok (room_memberships (handle_message tr u m w))"
  by (cases m)
     (simp_all add: handle_message_def index_ok_handle_join_room index_ok_handle_leave_room)

lemma index_ok_step:
  assumes "index_ok (room_memberships w)"
  shows "index_ok (room_memberships (step x w))"
proof (cases x)
  case (Pair tr operation)
  then show ?thesis using assms
    by (cases operation)
       (simp_all add: index_ok_connect index_ok_disconnect index_ok_handle_message)
qed

lemma index_ok_run:
  "index_ok (room_memberships w) \<Longrightarrow> index_ok (room_memberships (run ops w))"
  unfolding run_def by (induction ops arbitrary: w) (simp_all add: index_ok_step)

lemma index_ok_init: "index_ok (room_memberships (run ops (init d)))"
  by (rule index_ok_run) (simp add: init_def index_ok_def)

section \<open>Concrete runs\<close>

lemmas manager_defs =
  run_def init_def db0_def all_up_def connect_def send_initial_data_def set_online_def
  handle_message_def handle_join_room_def active_room_def current_members_def admit_def
  existing_membership_def add_membership_def join_room_def room_members_def set_add_def
  send_to_user_def broadcast_to_room_def broadcast_room_users_def set_discard_def Let_def
  recipients_def room7_def joined_ops_def handle_leave_room_def leave_room_def
  close_membership_def

lemma two_joined_index: "room_memberships two_joined = [(7, [1, 2])]"
  by (simp add: two_joined_def manager_defs)

lemma two_joined_db: "memberships (db two_joined) =
   [\<lparr>m_room_id = 7, m_user_id = 1, m_is_active = True\<rparr>,
    \<lparr>m_room_id = 7, m_user_id = 2, m_is_active = True\<rparr>]"
  by (simp add: two_joined_def manager_defs)

lemma two_joined_connections: "active_connections two_joined = [1 \<mapsto> 10, 2 \<mapsto> 20]"
  by (simp add: two_joined_def manager_defs)

lemma one_joined_state:
  "room_memberships one_joined = [(7, [1])]"
  "active_connections one_joined 1 = Some 10"
  "memberships (db one_joined) = [\<lparr>m_room_id = 7, m_user_id = 1, m_is_active = True\<rparr>]"
  "rooms (db one_joined) = rooms db0"
  by (simp_all add: one_joined_def manager_defs)

section \<open>The membership index\<close>

lemma get_user_rooms_iff:
  assumes "distinct (map fst (room_memberships w))"
  shows "r \<in> set (get_user_rooms w u) \<longleftrightarrow> u \<in> set (room_members w r)"
proof -
  have "r \<in> set (get_user_rooms w u) \<longleftrightarrow>
        (\<exists>ms. (r, ms) \<in> set (room_memberships w) \<and> u \<in> set ms)"
    by (force simp: get_user_rooms_def)
  also have "\<dots> \<longleftrightarrow> (\<exists>ms. map_of (room_memberships w) r = Some ms \<and> u \<in> set ms)"
    using assms by simp
  also have "\<dots> \<longleftrightarrow> u \<in> set (room_members w r)"
    by (cases "map_of (room_memberships w) r") (simp_all add: room_members_def)
  finally show ?thesis .
qed

text \<open>
  C6. After any sequence of connects, disconnects and inbound messages (joins, leaves
  and the rest) from the initial state, user u is in the occupant set of room r if and
  only if r is among the rooms \<open>get_user_rooms\<close> returns for u.
\<close>

theorem membership_index_consistent:
  "u \<in> set (room_members (run ops (init d)) r) \<longleftrightarrow>
   r \<in> set (get_user_rooms (run ops (init d)) u)"
  using index_ok_init [of ops d] get_user_rooms_iff [of "run ops (init d)" r u]
  by (simp add: index_ok_def)

theorem membership_index_consistent_witness:
  "1 \<in> set (room_members (run joined_ops (init db0)) 7) \<and>
   7 \<in> set (get_user_rooms (run joined_ops (init db0)) 1) \<and>
   3 \<notin> set (room_members (run joined_ops (init db0)) 7) \<and>
   7 \<notin> set (get_user_rooms (run joined_ops (init db0)) 3)"
  using membership_index_consistent [of 1 joined_ops db0 7]
    membership_index_consistent [of 3 joined_ops db0 7] two_joined_index
  by (simp add: two_joined_def room_members_def)

lemma leave_room_no_empty:
  "map_of (room_memberships (leave_room tr u r w)) r \<noteq> Some []"
  by (simp add: leave_room_index update_conv' delete_conv' split: option.split)

text \<open>
  C9. A leave never keeps a room with an empty occupant set: after \<open>_leave_room\<close> the
  room is absent or has an occupant. And in every state reached from the initial one
  by connects, disconnects and inbound messages, each room id in the index has a
  non-empty occupant set.
\<close>

theorem empty_rooms_pruned:
  "map_of (room_memberships (leave_room tr u r w)) r \<noteq> Some [] \<and>
   ((k, members) \<in> set (room_memberships (run ops (init d))) \<longrightarrow> members \<noteq> [])"
  using index_ok_init [of ops d] leave_room_no_empty [of tr u r w]
  by (auto simp: index_ok_def list_all_iff)

theorem empty_rooms_pruned_witness:
  "(7, [2]) \<in> set (room_memberships
      (run (joined_ops @ [(all_up, Handle 1 (LeaveRoom (Some 7)))]) (init db0))) \<and>
   [2::int] \<noteq> [] \<and>
   room_memberships
      (run (joined_ops @ [(all_up, Handle 1 (LeaveRoom (Some 7))),
                          (all_up, Disconnect 2)]) (init db0)) = []"
  using empty_rooms_pruned [of all_up 1 7 two_joined 7 "[2]"
      "joined_ops @ [(all_up, Handle 1 (LeaveRoom (Some 7)))]" db0]
  by (simp add: manager_defs disconnect_def)

section \<open>Sends and broadcasts\<close>

lemma send_to_user_delivered:
  "delivered (send_to_user tr v m w) = delivered w @ frame_to tr m w v"
  by (simp add: send_to_user_def frame_to_def split: option.split)

lemma send_to_user_connections:
  "active_connections (send_to_user tr v m w) =
     (if frame_to tr m w v = [] then (active_connections w)(v := None) else active_connections w)"
  by (auto simp: send_to_user_def frame_to_def split: option.split)

lemma frame_to_after_send:
  "frame_to tr m' (send_to_user tr v m w) x = frame_to tr m' w x"
  by (cases "active_connections w v") (auto simp: send_to_user_def frame_to_def)

lemma fold_send_delivered:
  "delivered (fold (\<lambda>v. send_to_user tr v m) us w) =
     delivered w @ concat (map (frame_to tr m w) us)"
proof (induction us arbitrary: w)
  case Nil
  then show ?case by simp
next
  case (Cons x xs)
  show ?case
    by (simp add: Cons.IH send_to_user_delivered frame_to_after_send)
qed

lemma fold_send_connections:
  "active_connections (fold (\<lambda>v. send_to_user tr v m) us w) x =
     (if x \<in> set us \<and> frame_to tr m w x = [] then None else active_connections w x)"
proof (induction us arbitrary: w)
  case Nil
  then show ?case by simp
next
  case (Cons y ys)
  show ?case
    by (simp add: Cons.IH frame_to_after_send send_to_user_connections)
qed

lemma frame_to_after_fold:
  "frame_to tr m' (fold (\<lambda>v. send_to_user tr v m) us w) x = frame_to tr m' w x"
  by (induction us arbitrary: w) (simp_all add: frame_to_after_send)

text \<open>
  C5. In a room broadcast the frames written are exactly those of the recipients whose
  write succeeds, in the order of iteration: a member whose websocket works receives
  the message and stays registered, whatever happens to the others; a member whose
  write fails is removed from the registry and is reported offline.
\<close>

theorem broadcast_fan_out_isolated:
  assumes "map_of (room_memberships w) room_id = Some ms"
    and "v \<in> set (recipients ms exclude_user)"
    and "active_connections w v = Some websocket" and "tr websocket"
    and "f \<in> set (recipients ms exclude_user)"
    and "active_connections w f = Some broken" and "\<not> tr broken"
  shows "delivered (broadcast_to_room tr room_id message exclude_user w) =
           delivered w @ concat (map (frame_to tr message w) (recipients ms exclude_user)) \<and>
         (websocket, message) \<in> set (delivered (broadcast_to_room tr room_id message exclude_user w)) \<and>
         is_user_online (broadcast_to_room tr room_id message exclude_user w) v \<and>
         \<not> is_user_online (broadcast_to_room tr room_id message exclude_user w) f"
proof -
  let ?w' = "broadcast_to_room tr room_id message exclude_user w"
  have w': "?w' = fold (\<lambda>u. send_to_user tr u message) (recipients ms exclude_user) w"
    using assms(1) by (simp add: broadcast_to_room_def)
  have d: "delivered ?w' =
      delivered w @ concat (map (frame_to tr message w) (recipients ms exclude_user))"
    by (simp add: w' fold_send_delivered)
  have "frame_to tr message w v = [(websocket, message)]"
    using assms(3,4) by (simp add: frame_to_def)
  then have "(websocket, message) \<in> set (delivered ?w')"
    using assms(2) d by force
  moreover have "is_user_online ?w' v"
    using assms(3,4) by (simp add: w' is_user_online_def fold_send_connections frame_to_def)
  moreover have "\<not> is_user_online ?w' f"
    using assms(5,6,7) by (simp add: w' is_user_online_def fold_send_connections frame_to_def)
  ultimately show ?thesis using d by blast
qed

theorem broadcast_fan_out_isolated_witness:
  "delivered (broadcast_to_room one_down 7 (NewMessage 7 1 ''hi'') None three_in_room) =
     [(10, NewMessage 7 1 ''hi''), (30, NewMessage 7 1 ''hi'')] \<and>
   is_user_online (broadcast_to_room one_down 7 (NewMessage 7 1 ''hi'') None three_in_room) 3 \<and>
   \<not> is_user_online (broadcast_to_room one_down 7 (NewMessage 7 1 ''hi'') None three_in_room) 2"
  using broadcast_fan_out_isolated [of three_in_room 7 "[1, 2, 3]" 3 None 30 one_down 2 20
      "NewMessage 7 1 ''hi''"]
  by (simp add: three_in_room_def one_down_def recipients_def frame_to_def)

section \<open>Admission to a room\<close>

lemma three_connected_db: "memberships (db three_connected) =
   [\<lparr>m_room_id = 7, m_user_id = 1, m_is_active = True\<rparr>,
    \<lparr>m_room_id = 7, m_user_id = 2, m_is_active = True\<rparr>]"
  by (simp add: three_connected_def manager_defs)

lemma three_connected_rooms: "rooms (db three_connected) = rooms db0"
  by (simp add: three_connected_def manager_defs)

lemma three_connected_state:
  "room_memberships three_connected = [(7, [1, 2])]"
  "active_connections three_connected 3 = Some 30"
  by (simp_all add: three_connected_def manager_defs)

lemma rejected_with_send:
  "w' = send_to_user tr u (ErrorMsg msg) w \<Longrightarrow> rejected_with tr u msg w w'"
  by (simp add: rejected_with_def send_to_user_delivered send_to_user_connections)

text \<open>
  C3. A join request that fails an admission check is answered with the error of that
  check and mutates nothing, whichever check fails: the room missing or inactive, the
  active memberships at \<open>max_users\<close> (capacity 2 with two members, for one, whoever
  asks), or the location outside the boundary. So all three checks come before any
  write to the memberships.
\<close>

theorem join_rejections_keep_state:
  assumes "room_id \<noteq> 0"
  shows "(active_room (db w) room_id = None \<longrightarrow>
            rejected_with tr u ''Room not found'' w
              (handle_message tr u (JoinRoom (Some room_id) l) w)) \<and>
         (active_room (db w) room_id = Some room \<and>
          max_users room \<le> current_members (db w) room_id \<longrightarrow>
            rejected_with tr u ''Room is at maximum capacity'' w
              (handle_message tr u (JoinRoom (Some room_id) l) w)) \<and>
         (active_room (db w) room_id = Some room \<and>
          current_members (db w) room_id < max_users room \<and>
          admit l room = Some False \<longrightarrow>
            rejected_with tr u ''Outside room boundaries'' w
              (handle_message tr u (JoinRoom (Some room_id) l) w))"
proof (intro conjI impI)
  assume "active_room (db w) room_id = None"
  then have "handle_message tr u (JoinRoom (Some room_id) l) w =
             send_to_user tr u (ErrorMsg ''Room not found'') w"
    using assms by (simp add: handle_message_def handle_join_room_def)
  then show "rejected_with tr u ''Room not found'' w
              (handle_message tr u (JoinRoom (Some room_id) l) w)"
    by (rule rejected_with_send)
next
  assume "active_room (db w) room_id = Some room \<and>
          max_users room \<le> current_members (db w) room_id"
  then have "handle_message tr u (JoinRoom (Some room_id) l) w =
             send_to_user tr u (ErrorMsg ''Room is at maximum capacity'') w"
    using assms by (simp add: handle_message_def handle_join_room_def)
  then show "rejected_with tr u ''Room is at maximum capacity'' w
              (handle_message tr u (JoinRoom (Some room_id) l) w)"
    by (rule rejected_with_send)
next
  assume "active_room (db w) room_id = Some room \<and>
          current_members (db w) room_id < max_users room \<and>
          admit l room = Some False"
  then have "handle_message tr u (JoinRoom (Some room_id) l) w =
             send_to_user tr u (ErrorMsg ''Outside room boundaries'') w"
    using assms by (simp add: handle_message_def handle_join_room_def)
  then show "rejected_with tr u ''Outside room boundaries'' w
              (handle_message tr u (JoinRoom (Some room_id) l) w)"
    by (rule rejected_with_send)
qed

lemma antipode_a: "haversine_a 1 1 (- 1) (- 179) = 1"
proof -
  have a: "radians (- 1 - 1) / 2 = - radians 1" by (simp add: radians_def)
  have b: "radians (- 179 - 1) / 2 = - (pi / 2)" by (simp add: radians_def)
  have c: "radians (- 1) = - radians 1" by (simp add: radians_def)
  have "haversine_a 1 1 (- 1) (- 179) =
        sin (radians 1) * sin (radians 1) + cos (radians 1) * cos (radians 1)"
    unfolding haversine_a_def Let_def a b c by simp
  also have "\<dots> = 1"
    using sin_cos_squared_add [of "radians 1"] by (simp add: power2_eq_square)
  finally show ?thesis .
qed

lemma antipode_outside: "admit (Some antipode) room7 = Some False"
proof -
  have "2 \<le> pi" by (rule pi_ge_two)
  then have "\<not> 6371 * (2 * (pi / 2)) \<le> (50::real) / 1000" by simp
  then show ?thesis
    by (simp add: admit_def antipode_def is_location_within_room_boundary_def room7_def
          antipode_a py_sqrt_def atan2_def Let_def)
qed

theorem join_rejections_keep_state_witness:
  "handle_message all_up 3 (JoinRoom (Some 8) None) three_connected =
     three_connected\<lparr>delivered := delivered three_connected @ [(30, ErrorMsg ''Room not found'')]\<rparr> \<and>
   max_users room7 = 2 \<and> current_members (db three_connected) 7 = 2 \<and>
   handle_message all_up 3 (JoinRoom (Some 7) None) three_connected =
     three_connected\<lparr>delivered := delivered three_connected @
        [(30, ErrorMsg ''Room is at maximum capacity'')]\<rparr> \<and>
   handle_message all_up 2 (JoinRoom (Some 7) (Some antipode)) one_joined = one_joined"
proof -
  have n8: "(8::int) \<noteq> 0" and n7: "(7::int) \<noteq> 0" by simp_all
  have a8: "active_room (db three_connected) 8 = None"
    by (simp add: active_room_def three_connected_rooms db0_def)
  have a7: "active_room (db three_connected) 7 = Some room7"
    by (simp add: active_room_def three_connected_rooms db0_def room7_def)
  have c7: "current_members (db three_connected) 7 = 2"
    by (simp add: current_members_def three_connected_db)
  have m7: "max_users room7 = 2" by (simp add: room7_def)
  have o7: "active_room (db one_joined) 7 = Some room7"
    by (simp add: active_room_def one_joined_state db0_def room7_def)
  have oc: "current_members (db one_joined) 7 < max_users room7"
    by (simp add: current_members_def one_joined_state room7_def)
  have s3: "send_to_user all_up 3 (ErrorMsg msg) three_connected =
      three_connected\<lparr>delivered := delivered three_connected @ [(30, ErrorMsg msg)]\<rparr>" for msg
    by (simp add: send_to_user_def three_connected_state all_up_def)
  have s2: "send_to_user all_up 2 (ErrorMsg msg) one_joined = one_joined" for msg
    by (simp add: send_to_user_def one_joined_def manager_defs)
  have r1: "rejected_with all_up 3 ''Room not found'' three_connected
      (handle_message all_up 3 (JoinRoom (Some 8) None) three_connected)"
    using join_rejections_keep_state [OF n8, where w = three_connected and tr = all_up and u = 3
        and l = None] a8 by blast
  have r2: "rejected_with all_up 3 ''Room is at maximum capacity'' three_connected
      (handle_message all_up 3 (JoinRoom (Some 7) None) three_connected)"
    using join_rejections_keep_state [OF n7, where w = three_connected and room = room7
        and tr = all_up and u = 3 and l = None] a7 c7 m7
    by simp
  have r3: "rejected_with all_up 2 ''Outside room boundaries'' one_joined
      (handle_message all_up 2 (JoinRoom (Some 7) (Some antipode)) one_joined)"
    using join_rejections_keep_state [OF n7, where w = one_joined and room = room7
        and l = "Some antipode" and tr = all_up and u = 2]
      o7 oc antipode_outside by blast
  show ?thesis
    using r1 r2 r3 c7 m7 by (simp add: rejected_with_def s3 s2)
qed

lemma broadcast_appends:
  "\<exists>rest. delivered (broadcast_to_room tr r m e w) = delivered w @ rest \<and>
          (\<forall>x\<in>set rest. snd x = m)"
proof (cases "map_of (room_memberships w) r")
  case None
  then show ?thesis by (simp add: broadcast_to_room_def)
next
  case (Some ms)
  have "\<forall>x\<in>set (concat (map (frame_to tr m w) (recipients ms e))). snd x = m"
    by (auto simp: frame_to_def split: option.splits if_splits)
  then show ?thesis
    using Some by (simp add: broadcast_to_room_def fold_send_delivered)
qed

lemma active_room_rooms: "active_room d r = Some room \<Longrightarrow> rooms d r = Some room"
  by (simp add: active_room_def split: option.splits if_splits)

lemma join_member_index:
  assumes "u \<in> set (room_members w r)"
  shows "AList.update r (set_add u (room_members w r)) (room_memberships w) = room_memberships w"
proof (cases "map_of (room_memberships w) r")
  case None
  then show ?thesis using assms by (simp add: room_members_def)
next
  case (Some ms)
  then show ?thesis
    using assms by (simp add: room_members_def set_add_def update_triv)
qed

text \<open>
  A repeated join request by a user who is already an active member of the room, in
  the database and in memory, when the request passes the admission checks (the room
  is active and below capacity, the location, if sent, is within the boundary): the
  database and the in-memory memberships are unchanged, and the frames written are
  room_joined to the requester, then user_joined and room_users_update frames; no
  error.
\<close>

theorem repeated_join_noop:
  assumes "room_id \<noteq> 0"
    and "active_room (db w) room_id = Some room"
    and "current_members (db w) room_id < max_users room"
    and "admit l room = Some True"
    and "existing_membership (db w) room_id u = Some m"
    and "u \<in> set (room_members w room_id)"
  shows "db (handle_message tr u (JoinRoom (Some room_id) l) w) = db w \<and>
         room_memberships (handle_message tr u (JoinRoom (Some room_id) l) w) =
           room_memberships w \<and>
         (\<exists>rest. delivered (handle_message tr u (JoinRoom (Some room_id) l) w) =
                   delivered w @ frame_to tr (RoomJoined room_id) w u @ rest \<and>
                 (\<forall>x\<in>set rest. snd x = UserJoined u room_id \<or>
                                snd x = RoomUsersUpdate room_id))"
proof -
  let ?w' = "handle_message tr u (JoinRoom (Some room_id) l) w"
  have j: "?w' = join_room tr u room_id w"
    using assms(1-5) by (simp add: handle_message_def handle_join_room_def)
  have i: "room_memberships ?w' = room_memberships w"
    by (simp add: j join_room_index join_member_index [OF assms(6)])
  have w1: "w\<lparr>room_memberships := room_memberships w\<rparr> = w" by simp
  define a where "a = send_to_user tr u (RoomJoined room_id) w"
  define b where "b = broadcast_to_room tr room_id (UserJoined u room_id) (Some u) a"
  have e: "?w' = broadcast_room_users tr room_id b"
    using active_room_rooms [OF assms(2)]
    by (simp add: j join_room_def Let_def join_member_index [OF assms(6)] a_def b_def)
  obtain r1 where r1: "delivered b = delivered a @ r1" "\<forall>x\<in>set r1. snd x = UserJoined u room_id"
    using broadcast_appends [of tr room_id "UserJoined u room_id" "Some u" a]
    unfolding b_def by blast
  obtain r2 where r2: "delivered ?w' = delivered b @ r2"
      "\<forall>x\<in>set r2. snd x = RoomUsersUpdate room_id"
    using broadcast_appends [of tr room_id "RoomUsersUpdate room_id" None b]
    unfolding e broadcast_room_users_def by blast
  have "delivered ?w' = delivered w @ frame_to tr (RoomJoined room_id) w u @ (r1 @ r2)"
    using r1(1) r2(1) by (simp add: a_def send_to_user_delivered)
  moreover have "\<forall>x\<in>set (r1 @ r2). snd x = UserJoined u room_id \<or>
                                snd x = RoomUsersUpdate room_id"
    using r1(2) r2(2) by auto
  ultimately have "\<exists>rest. delivered ?w' = delivered w @ frame_to tr (RoomJoined room_id) w u @ rest \<and>
                 (\<forall>x\<in>set rest. snd x = UserJoined u room_id \<or>
                                snd x = RoomUsersUpdate room_id)"
    by blast
  moreover have "db ?w' = db w" by (simp add: j)
  ultimately show ?thesis using i by blast
qed

theorem repeated_join_noop_witness:
  "existing_membership (db one_joined) 7 1 =
     Some \<lparr>m_room_id = 7, m_user_id = 1, m_is_active = True\<rparr> \<and>
   memberships (db (handle_message all_up 1 (JoinRoom (Some 7) None) one_joined)) =
     [\<lparr>m_room_id = 7, m_user_id = 1, m_is_active = True\<rparr>] \<and>
   room_memberships (handle_message all_up 1 (JoinRoom (Some 7) None) one_joined) = [(7, [1])]"
proof -
  have h1: "(7::int) \<noteq> 0" by simp
  have h2: "active_room (db one_joined) 7 = Some room7"
    by (simp add: active_room_def one_joined_state db0_def room7_def)
  have h3: "current_members (db one_joined) 7 < max_users room7"
    by (simp add: current_members_def one_joined_state room7_def)
  have h4: "admit None room7 = Some True" by (simp add: admit_def)
  have h5: "existing_membership (db one_joined) 7 1 =
     Some \<lparr>m_room_id = 7, m_user_id = 1, m_is_active = True\<rparr>"
    by (simp add: existing_membership_def one_joined_state)
  have h6: "1 \<in> set (room_members one_joined 7)"
    by (simp add: room_members_def one_joined_state)
  show ?thesis
    using repeated_join_noop [OF h1 h2 h3 h4 h5 h6, of all_up] h5
    by (simp add: one_joined_state)
qed

text \<open>
  C8. The code at a repeated join in a full room. Room 7 has capacity 2 and the
  members 1 and 2. The capacity check counts member 1 and comes before the membership
  check, so the repeated join of member 1 is answered with the at-capacity error,
  where the claim has a no-op with an informative result. The reconnect path
  (\<open>connect\<close>, which rejoins the rooms of the user) does admit member 1 to the same
  full room, with room_joined.
\<close>

theorem repeated_join_full_room_rejected:
  "existing_membership (db two_joined) 7 1 \<noteq> None \<and>
   1 \<in> set (room_members two_joined 7) \<and>
   delivered (handle_message all_up 1 (JoinRoom (Some 7) None) two_joined) =
     delivered two_joined @ [(10, ErrorMsg ''Room is at maximum capacity'')] \<and>
   delivered (connect all_up 1 10 two_joined) =
     delivered two_joined @
       [(10, RoomJoined 7), (20, UserJoined 1 7), (10, RoomUsersUpdate 7),
        (20, RoomUsersUpdate 7)]"
proof -
  have "rooms (db two_joined) = rooms db0"
    by (simp add: two_joined_def manager_defs)
  then have "handle_message all_up 1 (JoinRoom (Some 7) None) two_joined =
        send_to_user all_up 1 (ErrorMsg ''Room is at maximum capacity'') two_joined"
    by (simp add: handle_message_def handle_join_room_def active_room_def current_members_def
          two_joined_db db0_def room7_def)
  moreover have "delivered (connect all_up 1 10 two_joined) =
     delivered two_joined @
       [(10, RoomJoined 7), (20, UserJoined 1 7), (10, RoomUsersUpdate 7),
        (20, RoomUsersUpdate 7)]"
    by (simp add: two_joined_def manager_defs)
  ultimately show ?thesis
    by (simp add: existing_membership_def two_joined_db room_members_def two_joined_index
          send_to_user_def two_joined_connections all_up_def)
qed

section \<open>The connection registry\<close>

lemma send_keeps:
  "active_connections w u = Some s \<Longrightarrow> tr s \<Longrightarrow>
   active_connections (send_to_user tr v m w) u = Some s"
  by (auto simp: send_to_user_connections frame_to_def)

lemma broadcast_keeps:
  assumes "active_connections w u = Some s" and "tr s"
  shows "active_connections (broadcast_to_room tr r m e w) u = Some s"
proof (cases "map_of (room_memberships w) r")
  case None
  then show ?thesis using assms by (simp add: broadcast_to_room_def)
next
  case (Some ms)
  then show ?thesis
    using assms by (simp add: broadcast_to_room_def fold_send_connections frame_to_def)
qed

lemma join_room_keeps:
  assumes "active_connections w u = Some s" and "tr s"
  shows "active_connections (join_room tr v r w) u = Some s"
proof -
  define w1 where "w1 = w\<lparr>room_memberships :=
      AList.update r (set_add v (room_members w r)) (room_memberships w)\<rparr>"
  have k: "active_connections w1 u = Some s" using assms(1) by (simp add: w1_def)
  show ?thesis
  proof (cases "rooms (db w) r")
    case None
    then show ?thesis using k by (simp add: join_room_def Let_def w1_def)
  next
    case (Some room)
    have "active_connections
        (broadcast_room_users tr r
          (broadcast_to_room tr r (UserJoined v r) (Some v)
            (send_to_user tr v (RoomJoined r) w1))) u = Some s"
      unfolding broadcast_room_users_def
      by (intro broadcast_keeps send_keeps k assms(2))
    then show ?thesis using Some by (simp add: join_room_def Let_def w1_def)
  qed
qed

lemma rejoin_all_keeps:
  "active_connections w u = Some s \<Longrightarrow> tr s \<Longrightarrow>
   active_connections (fold (\<lambda>m. join_room tr v (m_room_id m)) ms w) u = Some s"
  by (induction ms arbitrary: w) (simp_all add: join_room_keeps)

lemma rejoin_all_closed:
  "closed (fold (\<lambda>m. join_room tr v (m_room_id m)) ms w) = closed w"
  by (induction ms arbitrary: w) simp_all

lemma connect_binds:
  "tr s \<Longrightarrow> active_connections (connect tr u s w) u = Some s"
  by (simp add: connect_def Let_def send_initial_data_def rejoin_all_keeps)

lemma connect_closed: "closed (connect tr u s w) = closed w"
  by (simp add: connect_def Let_def send_initial_data_def rejoin_all_closed)

text \<open>
  C2, as the code has it. After \<open>connect\<close> with session s2 following \<open>connect\<close> with
  session s1 for the same user, on a transport where the writes to s2 succeed: the
  registry binds the user to s2 (one session per user, the registry being a map), the
  user is online, and a later send to the user writes to s2 only. No websocket is
  closed by either \<open>connect\<close>.
\<close>

theorem reconnect_supersedes:
  assumes "tr2 s2"
  shows "active_connections (connect tr2 u s2 (connect tr1 u s1 w)) u = Some s2 \<and>
         is_user_online (connect tr2 u s2 (connect tr1 u s1 w)) u \<and>
         delivered (send_to_user tr u m (connect tr2 u s2 (connect tr1 u s1 w))) =
           delivered (connect tr2 u s2 (connect tr1 u s1 w)) @
             (if tr s2 then [(s2, m)] else []) \<and>
         closed (connect tr2 u s2 (connect tr1 u s1 w)) = closed w"
proof -
  have b: "active_connections (connect tr2 u s2 (connect tr1 u s1 w)) u = Some s2"
    using assms by (rule connect_binds)
  then show ?thesis
    by (simp add: is_user_online_def send_to_user_delivered frame_to_def connect_closed)
qed

theorem reconnect_supersedes_witness:
  "all_up 20 \<and>
   active_connections (connect all_up 1 20 (connect all_up 1 10 (init db0))) 1 = Some 20 \<and>
   delivered (send_to_user all_up 1 Pong (connect all_up 1 20 (connect all_up 1 10 (init db0)))) =
     [(20, Pong)]"
proof -
  have h: "all_up 20" by (simp add: all_up_def)
  have d: "delivered (connect all_up 1 20 (connect all_up 1 10 (init db0))) = []"
    by (simp add: manager_defs)
  show ?thesis
    using reconnect_supersedes [of all_up 20 1 all_up 10 "init db0" all_up Pong] h d
    by simp
qed

text \<open>The first websocket, 10, is replaced in the registry but not closed.\<close>

theorem reconnect_old_session_open_counterexample:
  "is_user_online (connect all_up 1 20 (connect all_up 1 10 (init db0))) 1 \<and>
   10 \<notin> set (closed (connect all_up 1 20 (connect all_up 1 10 (init db0))))"
  by (simp add: manager_defs is_user_online_def)

section \<open>Disconnect\<close>

lemma send_none:
  "active_connections w v = None \<Longrightarrow> active_connections (send_to_user tr x m w) v = None"
  by (simp add: send_to_user_connections)









lemma friend_locations_db0:
  "friend_locations db0 1 =
     [\<lparr>ld_user_id = 2, ld_latitude = 1, ld_longitude = 1, ld_accuracy = None\<rparr>]"
  by (simp add: friend_locations_def db0_def)


section \<open>Proximity events\<close>

lemma cache_key_inj: "cache_key u f' = cache_key u f \<longleftrightarrow> f' = f"
  by (auto simp: cache_key_def min_def max_def split: if_splits)

lemma proximity_loop_step:
  assumes "g (latitude l) (longitude l) (ld_latitude r) (ld_longitude r) = Some dx"
  shows "proximity_loop g u l (r # rs) evs ls =
     proximity_loop g u l rs (evs @ transition ls u (ld_user_id r) dx)
       (ls\<lparr>proximity_cache := (proximity_cache ls)(cache_key u (ld_user_id r) \<mapsto> dx)\<rparr>)"
  using assms by (simp add: Let_def transition_def)

lemma events_for_transition:
  "events_for f (transition ls u f' dx) = (if f' = f then transition ls u f dx else [])"
  by (simp add: events_for_def transition_def)

lemma proximity_loop_other:
  assumes "\<forall>r\<in>set fls. ld_user_id r \<noteq> f"
    and "\<forall>r\<in>set fls. g (latitude l) (longitude l) (ld_latitude r) (ld_longitude r) \<noteq> None"
  shows "events_for f (fst (proximity_loop g u l fls evs ls)) = events_for f evs \<and>
         proximity_cache (snd (proximity_loop g u l fls evs ls)) (cache_key u f) =
           proximity_cache ls (cache_key u f)"
  using assms
proof (induction fls arbitrary: evs ls)
  case Nil
  then show ?case by simp
next
  case (Cons r rs)
  from Cons.prems(2) obtain dx where
    dx: "g (latitude l) (longitude l) (ld_latitude r) (ld_longitude r) = Some dx"
    by auto
  have ne: "ld_user_id r \<noteq> f" using Cons.prems(1) by simp
  let ?evs = "evs @ transition ls u (ld_user_id r) dx"
  let ?ls = "ls\<lparr>proximity_cache := (proximity_cache ls)(cache_key u (ld_user_id r) \<mapsto> dx)\<rparr>"
  have ih: "events_for f (fst (proximity_loop g u l rs ?evs ?ls)) = events_for f ?evs \<and>
        proximity_cache (snd (proximity_loop g u l rs ?evs ?ls)) (cache_key u f) =
          proximity_cache ?ls (cache_key u f)"
    using Cons.IH [of ?evs ?ls] Cons.prems by simp
  have e: "events_for f ?evs = events_for f evs"
    using ne events_for_transition [of f ls u "ld_user_id r" dx]
    by (simp add: events_for_def)
  have c: "proximity_cache ?ls (cache_key u f) = proximity_cache ls (cache_key u f)"
    using ne by (simp add: cache_key_inj)
  show ?case
    using ih e c by (simp only: proximity_loop_step [where g = g and l = l and r = r, OF dx])
qed

lemma proximity_loop_pair:
  assumes "filter (\<lambda>r. ld_user_id r = f) fls = [fl]"
    and "\<forall>r\<in>set fls. g (latitude l) (longitude l) (ld_latitude r) (ld_longitude r) \<noteq> None"
    and "g (latitude l) (longitude l) (ld_latitude fl) (ld_longitude fl) = Some dx"
  shows "events_for f (fst (proximity_loop g u l fls evs ls)) =
           events_for f evs @ transition ls u f dx \<and>
         proximity_cache (snd (proximity_loop g u l fls evs ls)) (cache_key u f) = Some dx"
  using assms
proof (induction fls arbitrary: evs ls)
  case Nil
  then show ?case by simp
next
  case (Cons r rs)
  from Cons.prems(2) obtain d where
    d: "g (latitude l) (longitude l) (ld_latitude r) (ld_longitude r) = Some d"
    by auto
  let ?evs = "evs @ transition ls u (ld_user_id r) d"
  let ?ls = "ls\<lparr>proximity_cache := (proximity_cache ls)(cache_key u (ld_user_id r) \<mapsto> d)\<rparr>"
  have succ: "\<forall>x\<in>set rs. g (latitude l) (longitude l) (ld_latitude x) (ld_longitude x) \<noteq> None"
    using Cons.prems(2) by simp
  show ?case
  proof (cases "ld_user_id r = f")
    case True
    then have r: "r = fl" and rest: "filter (\<lambda>r. ld_user_id r = f) rs = []"
      using Cons.prems(1) by simp_all
    have no: "\<forall>x\<in>set rs. ld_user_id x \<noteq> f"
      using rest by (simp add: filter_empty_conv)
    have dd: "d = dx" using d r Cons.prems(3) by simp
    have o: "events_for f (fst (proximity_loop g u l rs ?evs ?ls)) = events_for f ?evs \<and>
         proximity_cache (snd (proximity_loop g u l rs ?evs ?ls)) (cache_key u f) =
           proximity_cache ?ls (cache_key u f)"
      by (rule proximity_loop_other [where g = g and l = l and fls = rs and f = f, OF no succ])
    have e: "events_for f ?evs = events_for f evs @ transition ls u f dx"
      using True dd events_for_transition [of f ls u f dx] by (simp add: events_for_def)
    have c: "proximity_cache ?ls (cache_key u f) = Some dx"
      using True dd by simp
    show ?thesis
      using o e c by (simp only: proximity_loop_step [where g = g and l = l and r = r, OF d])
  next
    case False
    then have rest: "filter (\<lambda>r. ld_user_id r = f) rs = [fl]"
      using Cons.prems(1) by simp
    have ih: "events_for f (fst (proximity_loop g u l rs ?evs ?ls)) =
           events_for f ?evs @ transition ?ls u f dx \<and>
         proximity_cache (snd (proximity_loop g u l rs ?evs ?ls)) (cache_key u f) = Some dx"
      by (rule Cons.IH [OF rest succ Cons.prems(3)])
    have e: "events_for f ?evs = events_for f evs"
      using False events_for_transition [of f ls u "ld_user_id r" d]
      by (simp add: events_for_def)
    have t: "transition ?ls u f dx = transition ls u f dx"
      using False by (simp add: transition_def was_nearby_def cache_key_inj)
    show ?thesis
      using ih e t by (simp only: proximity_loop_step [where g = g and l = l and r = r, OF d])
  qed
qed

lemma check_user_proximity_pair:
  assumes "filter (\<lambda>r. ld_user_id r = f) (friend_locations d u) = [fl]"
    and "\<forall>r\<in>set (friend_locations d u).
           g (latitude l) (longitude l) (ld_latitude r) (ld_longitude r) \<noteq> None"
    and "g (latitude l) (longitude l) (ld_latitude fl) (ld_longitude fl) = Some dx"
  shows "events_for f (fst (check_user_proximity g d u l ls)) = transition ls u f dx"
    and "proximity_cache (snd (check_user_proximity g d u l ls)) (cache_key u f) = Some dx"
  using proximity_loop_pair [where g = g and l = l and f = f and fls = "friend_locations d u"
      and fl = fl and dx = dx and u = u and evs = "[]" and ls = ls, OF assms]
  by (simp_all add: check_user_proximity_def events_for_def)

text \<open>
  C1, as the code has it. In \<open>LocationService._check_user_proximity\<close>, for a user u
  and a friend f whose location row the visibility query returns once, with every
  distance computed: from a cache that does not say "nearby" (150 m, or no entry), an
  update at a distance within the threshold of 100 m (50 m) yields exactly one
  "entered" event for f; a further update still within the threshold (60 m) yields no
  event for f; a following update beyond the threshold (120 m) yields exactly one
  "exited" event for f.
\<close>

theorem proximity_edge_triggered:
  assumes "filter (\<lambda>r. ld_user_id r = f) (friend_locations d u) = [fl]"
    and "\<forall>l\<in>{l1, l2, l3}. \<forall>r\<in>set (friend_locations d u).
           g (latitude l) (longitude l) (ld_latitude r) (ld_longitude r) \<noteq> None"
    and "\<not> was_nearby ls0 (cache_key u f)"
    and "g (latitude l1) (longitude l1) (ld_latitude fl) (ld_longitude fl) = Some d1"
    and "d1 \<le> proximity_threshold"
    and "g (latitude l2) (longitude l2) (ld_latitude fl) (ld_longitude fl) = Some d2"
    and "d2 \<le> proximity_threshold"
    and "g (latitude l3) (longitude l3) (ld_latitude fl) (ld_longitude fl) = Some d3"
    and "proximity_threshold < d3"
    and "ls1 = snd (check_user_proximity g d u l1 ls0)"
    and "ls2 = snd (check_user_proximity g d u l2 ls1)"
  shows "map event_type (events_for f (fst (check_user_proximity g d u l1 ls0))) = [''entered''] \<and>
         events_for f (fst (check_user_proximity g d u l2 ls1)) = [] \<and>
         map event_type (events_for f (fst (check_user_proximity g d u l3 ls2))) = [''exited'']"
proof -
  have s1: "\<forall>r\<in>set (friend_locations d u).
           g (latitude l1) (longitude l1) (ld_latitude r) (ld_longitude r) \<noteq> None"
    and s2: "\<forall>r\<in>set (friend_locations d u).
           g (latitude l2) (longitude l2) (ld_latitude r) (ld_longitude r) \<noteq> None"
    and s3: "\<forall>r\<in>set (friend_locations d u).
           g (latitude l3) (longitude l3) (ld_latitude r) (ld_longitude r) \<noteq> None"
    using assms(2) by simp_all
  have e1: "events_for f (fst (check_user_proximity g d u l1 ls0)) = transition ls0 u f d1"
    and c1: "proximity_cache ls1 (cache_key u f) = Some d1"
    using check_user_proximity_pair [where g = g and l = l1 and f = f and d = d and u = u
        and fl = fl and dx = d1 and ls = ls0, OF assms(1) s1 assms(4)] assms(10) by simp_all
  have e2: "events_for f (fst (check_user_proximity g d u l2 ls1)) = transition ls1 u f d2"
    and c2: "proximity_cache ls2 (cache_key u f) = Some d2"
    using check_user_proximity_pair [where g = g and l = l2 and f = f and d = d and u = u
        and fl = fl and dx = d2 and ls = ls1, OF assms(1) s2 assms(6)] assms(11) by simp_all
  have e3: "events_for f (fst (check_user_proximity g d u l3 ls2)) = transition ls2 u f d3"
    using check_user_proximity_pair [where g = g and l = l3 and f = f and d = d and u = u
        and fl = fl and dx = d3 and ls = ls2, OF assms(1) s3 assms(8)] by simp
  have "map event_type (transition ls0 u f d1) = [''entered'']"
    using assms(3,5) by (simp add: transition_def)
  moreover have "transition ls1 u f d2 = []"
    using c1 assms(5,7) by (simp add: transition_def was_nearby_def)
  moreover have "map event_type (transition ls2 u f d3) = [''exited'']"
    using c2 assms(7,9) by (simp add: transition_def was_nearby_def)
  ultimately show ?thesis using e1 e2 e3 by simp
qed

theorem proximity_edge_triggered_witness:
  "\<not> was_nearby apart_150 (cache_key 1 2) \<and>
   map event_type (events_for 2
     (fst (check_user_proximity by_longitude db0 1 (point_at 50) apart_150))) = [''entered''] \<and>
   events_for 2
     (fst (check_user_proximity by_longitude db0 1 (point_at 60)
        (snd (check_user_proximity by_longitude db0 1 (point_at 50) apart_150)))) = [] \<and>
   map event_type (events_for 2
     (fst (check_user_proximity by_longitude db0 1 (point_at 120)
        (snd (check_user_proximity by_longitude db0 1 (point_at 60)
           (snd (check_user_proximity by_longitude db0 1 (point_at 50) apart_150))))))) =
     [''exited'']"
proof -
  let ?fl = "\<lparr>ld_user_id = 2, ld_latitude = 1, ld_longitude = 1, ld_accuracy = None\<rparr>"
  have h1: "filter (\<lambda>r. ld_user_id r = 2) (friend_locations db0 1) = [?fl]"
    by (simp add: friend_locations_db0)
  have h2: "\<forall>l\<in>{point_at 50, point_at 60, point_at 120}. \<forall>r\<in>set (friend_locations db0 1).
      by_longitude (latitude l) (longitude l) (ld_latitude r) (ld_longitude r) \<noteq> None"
    by (simp add: by_longitude_def)
  have h3: "\<not> was_nearby apart_150 (cache_key 1 2)"
    by (simp add: was_nearby_def apart_150_def proximity_threshold_def)
  have h4: "by_longitude (latitude (point_at 50)) (longitude (point_at 50))
      (ld_latitude ?fl) (ld_longitude ?fl) = Some 50"
    by (simp add: by_longitude_def point_at_def)
  have h5: "(50::real) \<le> proximity_threshold" by (simp add: proximity_threshold_def)
  have h6: "by_longitude (latitude (point_at 60)) (longitude (point_at 60))
      (ld_latitude ?fl) (ld_longitude ?fl) = Some 60"
    by (simp add: by_longitude_def point_at_def)
  have h7: "(60::real) \<le> proximity_threshold" by (simp add: proximity_threshold_def)
  have h8: "by_longitude (latitude (point_at 120)) (longitude (point_at 120))
      (ld_latitude ?fl) (ld_longitude ?fl) = Some 120"
    by (simp add: by_longitude_def point_at_def)
  have h9: "proximity_threshold < (120::real)" by (simp add: proximity_threshold_def)
  show ?thesis
    using proximity_edge_triggered [where g = by_longitude and ?l1.0 = "point_at 50"
        and ?l2.0 = "point_at 60" and ?l3.0 = "point_at 120",
        OF h1 h2 h3 h4 h5 h6 h7 h8 h9 refl refl] h3
    by simp
qed

text \<open>
  \<open>WebSocketManager._check_proximity\<close> keeps no cache. User 1 sends the same location
  twice, at the place of friend 2: the second update, a steady state within the
  threshold, writes a second friend_nearby notification.
\<close>

theorem websocket_proximity_steady_state_counterexample:
  "delivered (run [(all_up, Connect 1 10),
                   (all_up, Handle 1 (LocationUpdate (Some here))),
                   (all_up, Handle 1 (LocationUpdate (Some here)))] (init db0)) =
     [(10, FriendNearby 2 0), (10, FriendNearby 2 0)]"
  by (simp add: manager_defs here_def handle_location_update_def check_proximity_def
        visible_friendships_def send_proximity_notification_def proximity_threshold_km_def
        distance_same)

end
